theory Spec2Isabelle
  imports Main "HOL-Library.AList"
begin

section \<open>Model of the finn desktop daemon\<close>

text \<open>
  Go strings are byte sequences; they are modelled as \<^typ>\<open>string\<close> (a list of
  8-bit characters), so \<open>length\<close> is Go's \<open>len\<close>. A method with a pointer
  receiver that mutates its receiver takes the receiver and returns the updated one; an
  \<open>error\<close> result is an \<open>error option\<close> (\<open>None\<close> is Go's \<open>nil\<close>).
\<close>

datatype error =
    FolderNotFound string
  | FolderLimitReached
  | NotConnected
  | MarshalFailed
  | WriteFailed

subsection \<open>Package config: the approved-folder set and the selection\<close>

record Folder =
  ID :: string
  Name :: string
  Path :: string

record Subscription =
  Tier :: string
  MaxFolders :: int
  Active :: bool

text \<open>
  The fields of \<open>Config\<close> that the folder operations read or write. The identity and
  token fields are untouched by them and are left out.
\<close>

record Config =
  ApprovedFolders :: "Folder list"
  SelectedFolderID :: string
  Subscription :: "Subscription option"

definition GetMaxFolders :: "string \<Rightarrow> int" where
  "GetMaxFolders tier =
     (if tier = ''standard'' then 5
      else if tier = ''pro'' then 10
      else if tier = ''max'' then 20
      else 5)"

definition NewSubscription :: "string \<Rightarrow> Subscription" where
  "NewSubscription tier = \<lparr>Tier = tier, MaxFolders = GetMaxFolders tier, Active = True\<rparr>"

definition CanAddFolder :: "Subscription \<Rightarrow> int \<Rightarrow> bool" where
  "CanAddFolder s currentFolderCount =
     (if \<not> Active s then False else currentFolderCount < MaxFolders s)"

text \<open>\<open>hasID i fs\<close> is the loop \<open>for _, f := range fs { if f.ID == i { found = true } }\<close>.\<close>

definition hasID :: "string \<Rightarrow> Folder list \<Rightarrow> bool" where
  "hasID i fs = list_ex (\<lambda>f. ID f = i) fs"

text \<open>
  \<open>AddFolder\<close>: the fresh UUID of \<open>uuid.New()\<close> is the parameter \<open>newID\<close>. A path
  already approved returns \<open>nil\<close> without a change. The subscription is filled in before
  the limit is checked, so it stays filled in when the limit rejects the folder.
\<close>

definition AddFolder :: "string \<Rightarrow> string \<Rightarrow> string \<Rightarrow> Config \<Rightarrow> error option \<times> Config" where
  "AddFolder newID name path c =
     (if list_ex (\<lambda>f. Path f = path) (ApprovedFolders c) then (None, c)
      else
        let currentCount = int (length (ApprovedFolders c));
            sub = (case Subscription c of None \<Rightarrow> NewSubscription ''standard'' | Some s \<Rightarrow> s);
            c1 = c\<lparr>Subscription := Some sub\<rparr>
        in if \<not> CanAddFolder sub currentCount then (Some FolderLimitReached, c1)
           else (None, c1\<lparr>ApprovedFolders :=
                   ApprovedFolders c1 @ [\<lparr>ID = newID, Name = name, Path = path\<rparr>]\<rparr>))"

definition RemoveFolder :: "string \<Rightarrow> Config \<Rightarrow> Config" where
  "RemoveFolder path c =
     (let filtered = filter (\<lambda>f. Path f \<noteq> path) (ApprovedFolders c);
          c1 = c\<lparr>ApprovedFolders := filtered\<rparr>
      in if hasID (SelectedFolderID c1) (ApprovedFolders c1) then c1
         else c1\<lparr>SelectedFolderID := ''''\<rparr>)"

definition RemoveFolderByID :: "string \<Rightarrow> Config \<Rightarrow> error option \<times> Config" where
  "RemoveFolderByID i c =
     (let filtered = filter (\<lambda>f. ID f \<noteq> i) (ApprovedFolders c);
          found = hasID i (ApprovedFolders c)
      in if \<not> found then (Some (FolderNotFound i), c)
         else
           let c1 = c\<lparr>ApprovedFolders := filtered\<rparr>
           in if SelectedFolderID c1 = i then (None, c1\<lparr>SelectedFolderID := ''''\<rparr>)
              else (None, c1))"

definition SelectFolder :: "string \<Rightarrow> Config \<Rightarrow> error option \<times> Config" where
  "SelectFolder i c =
     (if \<not> hasID i (ApprovedFolders c) then (Some (FolderNotFound i), c)
      else (None, c\<lparr>SelectedFolderID := i\<rparr>))"

text \<open>The invariant: the selection is empty or is the id of an approved folder.\<close>

definition selection_valid :: "Config \<Rightarrow> bool" where
  "selection_valid c =
     (if SelectedFolderID c = '''' then True
      else hasID (SelectedFolderID c) (ApprovedFolders c))"

text \<open>A configuration with two approved folders, the first one selected.\<close>

definition demo_config :: Config where
  "demo_config =
     \<lparr>ApprovedFolders = [\<lparr>ID = ''a'', Name = ''app'', Path = ''/p''\<rparr>,
                         \<lparr>ID = ''b'', Name = ''lib'', Path = ''/q''\<rparr>],
      SelectedFolderID = ''a'', Subscription = None\<rparr>"

subsection \<open>Package websocket: the control channel\<close>

record Message =
  UserID :: string
  DeviceType :: string
  MsgType :: string
  Payload :: string

text \<open>
  The control-channel client. \<open>ws_conn\<close> is the \<open>conn\<close> pointer (\<open>None\<close> is
  \<open>nil\<close>, \<open>Some k\<close> the k-th socket dialled), \<open>connected\<close> and \<open>reconnecting\<close> are
  the two atomic flags, \<open>ctxDone\<close> says that the main context has been cancelled, and
  \<open>wire\<close> lists the frames written so far with the socket each went to.
\<close>

record WSClient =
  ws_conn :: "nat option"
  connected :: bool
  reconnecting :: bool
  ctxDone :: bool
  wire :: "(nat \<times> string) list"

definition NewWSClient :: WSClient where
  "NewWSClient =
     \<lparr>ws_conn = None, connected = False, reconnecting = False, ctxDone = False, wire = []\<rparr>"

text \<open>
  \<open>SendMessage\<close>. \<open>json.Marshal\<close> is the parameter \<open>marshal\<close> (\<open>None\<close> when it
  fails) and \<open>writeOk\<close> says whether \<open>conn.Write\<close> succeeds; a successful write appends
  the frame to the wire.
\<close>

definition SendMessage ::
  "(Message \<Rightarrow> string option) \<Rightarrow> bool \<Rightarrow> Message \<Rightarrow> WSClient \<Rightarrow> error option \<times> WSClient" where
  "SendMessage marshal writeOk msg c =
     (case ws_conn c of
        None \<Rightarrow> (Some NotConnected, c)
      | Some k \<Rightarrow>
          if \<not> connected c then (Some NotConnected, c)
          else (case marshal msg of
                  None \<Rightarrow> (Some MarshalFailed, c)
                | Some data \<Rightarrow>
                    if writeOk then (None, c\<lparr>wire := wire c @ [(k, data)]\<rparr>)
                    else (Some WriteFailed, c)))"

text \<open>
  \<open>triggerReconnect\<close> and \<open>reconnectLoop\<close> run in many goroutines. Their accesses to
  the client are the atomic operations below, so an execution is an interleaving of them.
  The goroutines are anonymous; the state counts how many stand at each program point:
  \<open>atCAS\<close> callers of \<open>triggerReconnect\<close> have passed the shutdown check and are about to
  execute \<open>CompareAndSwap(false, true)\<close>, \<open>atSpawn\<close> callers have won it and are about to
  execute \<open>go c.reconnectLoop()\<close>, \<open>loops\<close> reconnect loops have been started and have
  not yet run their deferred \<open>reconnecting.Store(false)\<close>, and \<open>started\<close> counts every
  loop ever started.
\<close>

record Goroutines =
  client :: WSClient
  atCAS :: nat
  atSpawn :: nat
  loops :: nat
  started :: nat

datatype action =
    Trigger    \<comment> \<open>a pump exits and enters \<open>triggerReconnect\<close>: the shutdown check\<close>
  | CAS        \<comment> \<open>one caller executes \<open>reconnecting.CompareAndSwap(false, true)\<close>\<close>
  | Spawn      \<comment> \<open>a caller that won executes \<open>go c.reconnectLoop()\<close>\<close>
  | LoopExit   \<comment> \<open>a reconnect loop returns; its deferred \<open>Store(false)\<close> runs\<close>
  | Cancel     \<comment> \<open>\<open>Close()\<close> cancels the main context\<close>

definition step :: "action \<Rightarrow> Goroutines \<Rightarrow> Goroutines" where
  "step a g =
     (case a of
        Trigger \<Rightarrow> if ctxDone (client g) then g else g\<lparr>atCAS := atCAS g + 1\<rparr>
      | CAS \<Rightarrow>
          if atCAS g = 0 then g
          else if reconnecting (client g) then g\<lparr>atCAS := atCAS g - 1\<rparr>
          else g\<lparr>client := (client g)\<lparr>reconnecting := True\<rparr>,
                 atCAS := atCAS g - 1, atSpawn := atSpawn g + 1\<rparr>
      | Spawn \<Rightarrow>
          if atSpawn g = 0 then g
          else g\<lparr>atSpawn := atSpawn g - 1, loops := loops g + 1, started := started g + 1\<rparr>
      | LoopExit \<Rightarrow>
          if loops g = 0 then g
          else g\<lparr>client := (client g)\<lparr>reconnecting := False\<rparr>, loops := loops g - 1\<rparr>
      | Cancel \<Rightarrow> g\<lparr>client := (client g)\<lparr>ctxDone := True\<rparr>\<rparr>)"

definition run :: "action list \<Rightarrow> Goroutines \<Rightarrow> Goroutines" where
  "run as g = fold step as g"

definition start :: Goroutines where
  "start = \<lparr>client = NewWSClient, atCAS = 0, atSpawn = 0, loops = 0, started = 0\<rparr>"

text \<open>The flag is set exactly while one goroutine has won it and not yet given it back.\<close>

definition flag_owned :: "Goroutines \<Rightarrow> bool" where
  "flag_owned g = (atSpawn g + loops g = (if reconnecting (client g) then 1 else 0))"

subsection \<open>Package tunnel: reconnection of the preview tunnel\<close>

datatype ConnectionState = StateConnected | StateReconnecting | StateDisconnected

text \<open>
  The tunnel client. \<open>conn\<close> is the connection pointer, \<open>onStateChange\<close> says whether a
  callback is set, \<open>reconnectDone\<close> that \<open>reconnectCtx\<close> has been cancelled. The counters
  are Go \<open>int\<close>s that only count up from 0 or 1 to \<open>maxReconnects\<close>, which
  \<open>NewClient\<close> sets to 5 and \<open>SetAutoReconnect\<close> only replaces by a positive number;
  they are natural numbers here.
\<close>

record TunnelClient =
  conn :: "nat option"
  autoReconnect :: bool
  maxReconnects :: nat
  reconnectCount :: nat
  onStateChange :: bool
  state :: ConnectionState
  reconnectDone :: bool

text \<open>
  What a run of the client does that is visible outside it: a call of the state-change
  callback with the state, the attempt and the maximum; a completed backoff wait with its
  length in seconds; a call of \<open>connectInternal(true)\<close> with the attempt that made it.
\<close>

datatype TunnelEvent =
    StateChange ConnectionState nat nat
  | Backoff nat
  | Reconnect nat

definition NewClient :: TunnelClient where
  "NewClient =
     \<lparr>conn = None, autoReconnect = True, maxReconnects = 5, reconnectCount = 0,
      onStateChange = False, state = StateDisconnected, reconnectDone = False\<rparr>"

definition SetStateChangeCallback :: "TunnelClient \<Rightarrow> TunnelClient" where
  "SetStateChangeCallback c = c\<lparr>onStateChange := True\<rparr>"

definition SetAutoReconnect :: "bool \<Rightarrow> int \<Rightarrow> TunnelClient \<Rightarrow> TunnelClient" where
  "SetAutoReconnect enabled maxAttempts c =
     (let c1 = c\<lparr>autoReconnect := enabled\<rparr>
      in if 0 < maxAttempts then c1\<lparr>maxReconnects := nat maxAttempts\<rparr> else c1)"

definition setState ::
  "ConnectionState \<Rightarrow> nat \<Rightarrow> TunnelClient \<times> TunnelEvent list \<Rightarrow> TunnelClient \<times> TunnelEvent list" where
  "setState st attempt s =
     (case s of (c, tr) \<Rightarrow>
        (c\<lparr>state := st\<rparr>,
         if onStateChange c then tr @ [StateChange st attempt (maxReconnects c)] else tr))"

text \<open>
  What happens around one attempt is decided outside the client: a concurrent \<open>Close()\<close>
  cancels \<open>reconnectCtx\<close> before the attempt's first check or during its backoff wait,
  or the wait completes and \<open>connectInternal(true)\<close> fails or succeeds with a new socket.
\<close>

datatype AttemptEnv =
    ClosedBeforeAttempt
  | ClosedDuringBackoff
  | ConnectFails
  | ConnectSucceeds nat

definition backoffs :: "nat list" where
  "backoffs = [1, 2, 4, 8, 16]"

definition backoffFor :: "nat \<Rightarrow> nat" where
  "backoffFor attempt =
     (let backoffIndex = attempt - 1;
          backoffIndex = (if backoffIndex \<ge> length backoffs then length backoffs - 1
                          else backoffIndex)
      in backoffs ! backoffIndex)"

text \<open>
  \<open>connectInternal(true)\<close>: on success the new socket is stored, the reconnect count
  is reset and the connected state is announced with attempt 0; the result says whether
  it succeeded (\<open>err == nil\<close>).
\<close>

definition connectInternal ::
  "AttemptEnv \<Rightarrow> TunnelClient \<times> TunnelEvent list \<Rightarrow> bool \<times> (TunnelClient \<times> TunnelEvent list)" where
  "connectInternal e s =
     (case e of
        ConnectSucceeds k \<Rightarrow>
          (True, setState StateConnected 0 ((fst s)\<lparr>conn := Some k, reconnectCount := 0\<rparr>, snd s))
      | _ \<Rightarrow> (False, s))"

text \<open>
  The loop \<open>for attempt := 1; attempt <= maxReconnects; attempt++\<close> of
  \<open>handleDisconnect\<close>, from \<open>attempt\<close> on, with the statement after the loop.
\<close>

function reconnectAttempts ::
  "(nat \<Rightarrow> AttemptEnv) \<Rightarrow> nat \<Rightarrow> nat \<Rightarrow> TunnelClient \<times> TunnelEvent list
     \<Rightarrow> TunnelClient \<times> TunnelEvent list" where
  "reconnectAttempts env maxR attempt s =
     (if \<not> attempt \<le> maxR then setState StateDisconnected maxR s
      else if reconnectDone (fst s) \<or> env attempt = ClosedBeforeAttempt
      then setState StateDisconnected attempt ((fst s)\<lparr>reconnectDone := True\<rparr>, snd s)
      else
        let s1 = setState StateReconnecting attempt s
        in if env attempt = ClosedDuringBackoff
           then setState StateDisconnected attempt ((fst s1)\<lparr>reconnectDone := True\<rparr>, snd s1)
           else
             let s2 = (fst s1, snd s1 @ [Backoff (backoffFor attempt), Reconnect attempt]);
                 r = connectInternal (env attempt) s2
             in if fst r then snd r
                else reconnectAttempts env maxR (attempt + 1) s2)"
  by pat_completeness auto
termination
  by (relation "measure (\<lambda>(env, maxR, attempt, s). Suc maxR - attempt)") auto

definition handleDisconnect ::
  "(nat \<Rightarrow> AttemptEnv) \<Rightarrow> TunnelClient \<Rightarrow> TunnelClient \<times> TunnelEvent list" where
  "handleDisconnect env c =
     (if \<not> autoReconnect c then setState StateDisconnected 0 (c, [])
      else reconnectAttempts env (maxReconnects c) 1 (c, []))"

text \<open>
  \<open>Close\<close> cancels the contexts, drops the connection, waits for the read pump (and with
  it a running \<open>handleDisconnect\<close>) and then stores the state without calling
  \<open>setState\<close>: it makes no callback of its own.
\<close>

definition Close :: "TunnelClient \<times> TunnelEvent list \<Rightarrow> TunnelClient \<times> TunnelEvent list" where
  "Close s =
     (case s of (c, tr) \<Rightarrow>
        (c\<lparr>reconnectDone := True, conn := None, state := StateDisconnected\<rparr>, tr))"

subsection \<open>Package strings: the functions of the Go library that the watcher calls\<close>

definition HasPrefix :: "string \<Rightarrow> string \<Rightarrow> bool" where
  "HasPrefix s pre = (take (length pre) s = pre)"

definition HasSuffix :: "string \<Rightarrow> string \<Rightarrow> bool" where
  "HasSuffix s suf = (length suf \<le> length s \<and> drop (length s - length suf) s = suf)"

definition TrimSuffix :: "string \<Rightarrow> string \<Rightarrow> string" where
  "TrimSuffix s suf = (if HasSuffix s suf then take (length s - length suf) s else s)"

text \<open>\<open>strings.ReplaceAll\<close> for a one-byte pattern and a one-byte replacement.\<close>

definition ReplaceAll :: "string \<Rightarrow> char \<Rightarrow> char \<Rightarrow> string" where
  "ReplaceAll s old new = map (\<lambda>c. if c = old then new else c) s"

text \<open>\<open>strings.Index\<close>: the position of the first occurrence, \<open>-1\<close> when there is none.\<close>

fun Index :: "string \<Rightarrow> string \<Rightarrow> int" where
  "Index [] sub = (if sub = [] then 0 else -1)"
| "Index (c # cs) sub =
     (if HasPrefix (c # cs) sub then 0
      else let r = Index cs sub in if r < 0 then -1 else r + 1)"

text \<open>\<open>strings.LastIndex\<close> for a one-byte pattern.\<close>

fun LastIndex :: "string \<Rightarrow> char \<Rightarrow> int" where
  "LastIndex [] c = -1"
| "LastIndex (x # xs) c =
     (let r = LastIndex xs c in if 0 \<le> r then r + 1 else if x = c then 0 else -1)"

text \<open>
  \<open>strings.TrimSpace\<close> removes the leading and trailing white space that
  \<open>unicode.IsSpace\<close> accepts. On the UTF-8 bytes these are the six ASCII bytes, the
  two-byte encodings of U+0085 and U+00A0, and the three-byte encodings of U+1680,
  U+2000 to U+200A, U+2028, U+2029, U+202F, U+205F and U+3000.
\<close>

definition asciiSpace :: "char \<Rightarrow> bool" where
  "asciiSpace a =
     (a = CHR 0x09 \<or> a = CHR 0x0A \<or> a = CHR 0x0B \<or> a = CHR 0x0C \<or> a = CHR 0x0D \<or> a = CHR 0x20)"

definition space2 :: "char \<Rightarrow> char \<Rightarrow> bool" where
  "space2 a b = (a = CHR 0xC2 \<and> (b = CHR 0x85 \<or> b = CHR 0xA0))"

definition space3 :: "char \<Rightarrow> char \<Rightarrow> char \<Rightarrow> bool" where
  "space3 a b c =
     ((a = CHR 0xE1 \<and> b = CHR 0x9A \<and> c = CHR 0x80)
      \<or> (a = CHR 0xE2 \<and> b = CHR 0x80 \<and>
          ((0x80 \<le> (of_char c :: nat) \<and> (of_char c :: nat) \<le> 0x8A)
           \<or> c = CHR 0xA8 \<or> c = CHR 0xA9 \<or> c = CHR 0xAF))
      \<or> (a = CHR 0xE2 \<and> b = CHR 0x81 \<and> c = CHR 0x9F)
      \<or> (a = CHR 0xE3 \<and> b = CHR 0x80 \<and> c = CHR 0x80))"

fun trimLeft :: "string \<Rightarrow> string" where
  "trimLeft (a # b # c # r) =
     (if asciiSpace a then trimLeft (b # c # r)
      else if space2 a b then trimLeft (c # r)
      else if space3 a b c then trimLeft r
      else a # b # c # r)"
| "trimLeft [a, b] =
     (if asciiSpace a then trimLeft [b] else if space2 a b then [] else [a, b])"
| "trimLeft [a] = (if asciiSpace a then [] else [a])"
| "trimLeft [] = []"

text \<open>The same from the end, on the reversed string: the last rune is decoded backwards.\<close>

fun trimLeftRev :: "string \<Rightarrow> string" where
  "trimLeftRev (a # b # c # r) =
     (if asciiSpace a then trimLeftRev (b # c # r)
      else if space2 b a then trimLeftRev (c # r)
      else if space3 c b a then trimLeftRev r
      else a # b # c # r)"
| "trimLeftRev [a, b] =
     (if asciiSpace a then trimLeftRev [b] else if space2 b a then [] else [a, b])"
| "trimLeftRev [a] = (if asciiSpace a then [] else [a])"
| "trimLeftRev [] = []"

definition TrimSpace :: "string \<Rightarrow> string" where
  "TrimSpace s = rev (trimLeftRev (rev (trimLeft s)))"

subsection \<open>Package watcher: session logs\<close>

text \<open>
  A decoded session-log record: its type, its summary, and the results of its accessors
  \<open>GetTextContent\<close> and \<open>GetModel\<close>, which read the record's JSON body.
\<close>

record StoredMessage =
  Type :: string
  Summary :: string
  TextContent :: string
  ModelName :: string

text \<open>
  The fields of \<open>SessionInfo\<close> but the cost (a sum of floats) and the activity time,
  which decide neither the title nor what is tracked.
\<close>

record SessionInfo =
  SessionID :: string
  ProjectPath :: string
  FilePath :: "string \<times> string"
  Title :: string
  Model :: string
  MessageCount :: int
  IsActive :: bool

text \<open>
  A session log lies at \<open>claudePath/<project directory>/<file>\<close>; its path is the pair of
  the two names, so that \<open>filepath.Base(filepath.Dir(filePath))\<close> is the first and
  \<open>filepath.Base(filePath)\<close> the second. The file system gives the entries of a project
  directory, the lines of a file and its size, each \<open>None\<close> when the call fails;
  \<open>decode\<close> is \<open>json.Unmarshal\<close> into a \<open>StoredMessage\<close>.
\<close>

record FS =
  readDir :: "string \<Rightarrow> string list option"
  fileLines :: "string \<times> string \<Rightarrow> string list option"
  fileSize :: "string \<times> string \<Rightarrow> int option"
  decode :: "string \<Rightarrow> StoredMessage option"

definition extractSessionID :: "string \<times> string \<Rightarrow> string" where
  "extractSessionID filePath = TrimSuffix (snd filePath) ''.jsonl''"

definition decodeProjectPath :: "string \<Rightarrow> string" where
  "decodeProjectPath encoded =
     (let encoded = (case encoded of
                       c # cs \<Rightarrow> if c = CHR ''-'' then cs else encoded
                     | [] \<Rightarrow> encoded)
      in ''/'' @ ReplaceAll encoded (CHR ''-'') (CHR ''/''))"

definition EncodeProjectPath :: "string \<Rightarrow> string" where
  "EncodeProjectPath path = ReplaceAll path (CHR ''/'') (CHR ''-'')"

text \<open>
  \<open>generateTitleFromMessage\<close>, in its two steps: the security preamble up to
  \<open>User request:\<close> is stripped, then the message is cut to a title.
\<close>

definition stripPreamble :: "string \<Rightarrow> string" where
  "stripPreamble message =
     (let idx = Index message ''User request:''
      in if idx \<noteq> -1 then TrimSpace (drop (nat idx + length ''User request:'') message)
         else message)"

definition generateTitleFromMessage :: "string \<Rightarrow> string" where
  "generateTitleFromMessage message =
     (let message = stripPreamble message;
          maxLen = 60
      in if length message \<le> maxLen then message
         else
           let truncated = take maxLen message;
               lastSpace = LastIndex truncated (CHR '' '');
               truncated = (if lastSpace > int maxLen div 2 then take (nat lastSpace) truncated
                            else truncated)
           in truncated @ ''...'')"

text \<open>
  The local variables of \<open>parseSessionFile\<close> with the session it fills in, and the
  statements of its loop body, each applied to a decoded record.
\<close>

record Scan =
  firstUserMessage :: string
  firstAssistantText :: string
  anyMessageContent :: string
  session :: SessionInfo

definition countMessage :: "Scan \<Rightarrow> Scan" where
  "countMessage sc = sc\<lparr>session := (session sc)\<lparr>MessageCount := MessageCount (session sc) + 1\<rparr>\<rparr>"

definition captureUser :: "StoredMessage \<Rightarrow> Scan \<Rightarrow> Scan" where
  "captureUser msg sc =
     (if firstUserMessage sc = '''' \<and> Type msg = ''user'' \<and> TextContent msg \<noteq> ''''
      then sc\<lparr>firstUserMessage := TextContent msg\<rparr> else sc)"

definition captureAssistant :: "StoredMessage \<Rightarrow> Scan \<Rightarrow> Scan" where
  "captureAssistant msg sc =
     (if firstAssistantText sc = '''' \<and> Type msg = ''assistant'' \<and> TextContent msg \<noteq> ''''
      then sc\<lparr>firstAssistantText := TextContent msg\<rparr> else sc)"

definition captureAny :: "StoredMessage \<Rightarrow> Scan \<Rightarrow> Scan" where
  "captureAny msg sc =
     (if anyMessageContent sc = '''' \<and> TextContent msg \<noteq> ''''
      then sc\<lparr>anyMessageContent := TextContent msg\<rparr> else sc)"

definition takeSummary :: "StoredMessage \<Rightarrow> Scan \<Rightarrow> Scan" where
  "takeSummary msg sc =
     (if Type msg = ''summary'' \<and> Summary msg \<noteq> ''''
      then sc\<lparr>session := (session sc)\<lparr>Title := Summary msg\<rparr>\<rparr> else sc)"

definition takeModel :: "StoredMessage \<Rightarrow> Scan \<Rightarrow> Scan" where
  "takeModel msg sc =
     (if ModelName msg \<noteq> ''''
      then sc\<lparr>session := (session sc)\<lparr>Model := ModelName msg\<rparr>\<rparr> else sc)"

text \<open>
  One turn of the loop: a line that does not decode is skipped; a record is counted, its
  text is captured for the three fallbacks, its summary becomes the title, and its model
  the session's model, in the order of the source.
\<close>

definition scanLine :: "FS \<Rightarrow> string \<Rightarrow> Scan \<Rightarrow> Scan" where
  "scanLine fs line sc =
     (case decode fs line of
        None \<Rightarrow> sc
      | Some msg \<Rightarrow>
          takeModel msg (takeSummary msg (captureAny msg (captureAssistant msg
            (captureUser msg (countMessage sc))))))"

text \<open>
  The scanner's buffer is 1 MiB: it stops at the first line that does not fit. A file
  that cannot be opened leaves the session as it is.
\<close>

definition scannedLines :: "string list \<Rightarrow> string list" where
  "scannedLines ls = takeWhile (\<lambda>l. length l < 1024 * 1024) ls"

definition parseSessionFile :: "FS \<Rightarrow> string \<times> string \<Rightarrow> SessionInfo \<Rightarrow> SessionInfo" where
  "parseSessionFile fs filePath s =
     (case fileLines fs filePath of
        None \<Rightarrow> s
      | Some ls \<Rightarrow>
          let sc = fold (scanLine fs) (scannedLines ls)
                     \<lparr>firstUserMessage = '''', firstAssistantText = '''',
                      anyMessageContent = '''', session = s\<rparr>;
              s = session sc
          in if Title s = '''' then
               (if firstUserMessage sc \<noteq> ''''
                then s\<lparr>Title := generateTitleFromMessage (firstUserMessage sc)\<rparr>
                else if firstAssistantText sc \<noteq> ''''
                then s\<lparr>Title := generateTitleFromMessage (firstAssistantText sc)\<rparr>
                else if anyMessageContent sc \<noteq> ''''
                then s\<lparr>Title := generateTitleFromMessage (anyMessageContent sc)\<rparr>
                else s)
             else s)"




text \<open>
  The watcher's index: the sessions by id and the byte offsets by file. The filter
  \<open>ShouldWatchProject\<close> is the one the agent installs: the decoded path must be the
  path of an approved folder.
\<close>

record Watcher =
  sessions :: "string \<rightharpoonup> SessionInfo"
  filePositions :: "string \<times> string \<rightharpoonup> int"

definition ShouldWatchProject :: "Folder list \<Rightarrow> string \<Rightarrow> bool" where
  "ShouldWatchProject approved projectPath = list_ex (\<lambda>folder. Path folder = projectPath) approved"

definition newSession :: "FS \<Rightarrow> string \<Rightarrow> string \<Rightarrow> string \<times> string \<Rightarrow> SessionInfo" where
  "newSession fs sessionID projectPath filePath =
     parseSessionFile fs filePath
       \<lparr>SessionID = sessionID, ProjectPath = projectPath, FilePath = filePath,
        Title = '''', Model = '''', MessageCount = 0, IsActive = True\<rparr>"

definition track :: "FS \<Rightarrow> string \<Rightarrow> string \<times> string \<Rightarrow> SessionInfo \<Rightarrow> Watcher \<Rightarrow> Watcher" where
  "track fs sessionID filePath s w =
     (let w = (case fileSize fs filePath of
                 None \<Rightarrow> w
               | Some n \<Rightarrow> w\<lparr>filePositions := (filePositions w)(filePath \<mapsto> n)\<rparr>)
      in w\<lparr>sessions := (sessions w)(sessionID \<mapsto> s)\<rparr>)"

definition handleNewFile :: "FS \<Rightarrow> Folder list \<Rightarrow> string \<times> string \<Rightarrow> Watcher \<Rightarrow> Watcher" where
  "handleNewFile fs approved filePath w =
     (let sessionID = extractSessionID filePath
      in if HasPrefix sessionID ''agent-'' then w
         else
           let projectPath = decodeProjectPath (fst filePath)
           in if \<not> ShouldWatchProject approved projectPath then w
              else (case sessions w sessionID of
                      Some s \<Rightarrow> w
                    | None \<Rightarrow>
                        track fs sessionID filePath
                          (newSession fs sessionID projectPath filePath) w))"

text \<open>The loop of \<open>ScanProjectSessions\<close> over the entries of the project directory.\<close>

fun scanFiles :: "FS \<Rightarrow> string \<Rightarrow> string \<Rightarrow> string list \<Rightarrow> Watcher \<Rightarrow> Watcher" where
  "scanFiles fs projectPath projDir [] w = w"
| "scanFiles fs projectPath projDir (file # files) w =
     (if \<not> HasSuffix file ''.jsonl'' then scanFiles fs projectPath projDir files w
      else
        let filePath = (projDir, file);
            sessionID = extractSessionID filePath
        in if HasPrefix sessionID ''agent-'' then scanFiles fs projectPath projDir files w
           else (case sessions w sessionID of
                   Some s \<Rightarrow> scanFiles fs projectPath projDir files w
                 | None \<Rightarrow>
                     scanFiles fs projectPath projDir files
                       (track fs sessionID filePath
                          (newSession fs sessionID projectPath filePath) w)))"

definition ScanProjectSessions :: "FS \<Rightarrow> string \<Rightarrow> Watcher \<Rightarrow> Watcher" where
  "ScanProjectSessions fs projectPath w =
     (let encoded = EncodeProjectPath projectPath
      in case readDir fs encoded of
           None \<Rightarrow> w
         | Some files \<Rightarrow> scanFiles fs projectPath encoded files w)"







text \<open>
  A small world for the examples: the directory of the folder \<open>/home/u/my-app\<close> holds one
  log of one user record; two folders are approved, \<open>/home/u/my-app\<close> and
  \<open>/home/u/my/app\<close>; the watcher tracks nothing yet.
\<close>

definition demo_fs :: FS where
  "demo_fs =
     \<lparr>readDir = (\<lambda>d. if d = ''-home-u-my-app'' then Some [''s1.jsonl''] else None),
      fileLines = (\<lambda>f. if f = (''-home-u-my-app'', ''s1.jsonl'') then Some [''u''] else None),
      fileSize = (\<lambda>f. if f = (''-home-u-my-app'', ''s1.jsonl'') then Some 2 else None),
      decode = (\<lambda>l. if l = ''u''
                      then Some \<lparr>Type = ''user'', Summary = '''', TextContent = ''hi'', ModelName = ''''\<rparr>
                      else None)\<rparr>"

definition demo_approved :: "Folder list" where
  "demo_approved =
     [\<lparr>ID = ''a'', Name = ''my-app'', Path = ''/home/u/my-app''\<rparr>,
      \<lparr>ID = ''b'', Name = ''app'', Path = ''/home/u/my/app''\<rparr>]"

definition empty_watcher :: Watcher where
  "empty_watcher = \<lparr>sessions = Map.empty, filePositions = Map.empty\<rparr>"

definition demo_session :: "string \<Rightarrow> SessionInfo" where
  "demo_session projectPath =
     \<lparr>SessionID = ''s1'', ProjectPath = projectPath,
      FilePath = (''-home-u-my-app'', ''s1.jsonl''), Title = ''hi'', Model = '''',
      MessageCount = 1, IsActive = True\<rparr>"


definition words_text :: string where
  "words_text = ''The quick brown fox jumps over the lazy dog and keeps running far away''"





subsection \<open>Package claude: events, stream messages and the decision parser\<close>

datatype EventType =
    EventTypeThinking
  | EventTypeToolUse
  | EventTypeDecision
  | EventTypeProgress
  | EventTypeDiff
  | EventTypeComplete
  | EventTypeError
  | EventTypeUsage

datatype DecisionOption = DecisionOption string string string
  \<comment> \<open>id, label, description\<close>

record UsageInfo =
  InputTokens :: int
  OutputTokens :: int
  CacheCreationInputTokens :: int
  CacheReadInputTokens :: int

text \<open>
  The content of an event is a JSON object in the source; here it is the data the object
  is marshalled from. A map from file to diff is an association list with one entry per
  file. A decision carries its question, context, options and, for a converted
  \<open>AskUserQuestion\<close>, the decision type. A completion says one of: \<open>files_changed\<close>
  alone, \<open>files_changed\<close> with \<open>auto_approved\<close>, or the message "n files changed".
\<close>

datatype Payload =
    ThinkingText string
  | ToolInfo string string
  | DecisionData string string "DecisionOption list" "string option"
  | DiffData nat "(string \<times> string) list" "bool option"
  | FilesChanged nat
  | AutoApproved nat
  | FilesChangedMessage nat
  | ErrorMessage string
  | UsageData UsageInfo string bool

datatype Event = Event EventType Payload

record ContentBlock =
  BlockType :: string
  Text :: string
  ToolName :: string
  Input :: string

text \<open>
  A message of the coder's stream. Its cost and duration, which are only copied into usage
  events, are left out.
\<close>

record StreamMessage =
  MessageType :: string
  Subtype :: string
  Content :: "ContentBlock list"
  StopReason :: string
  MessageModel :: string
  Usage :: "UsageInfo option"
  Result :: string
  TopLevelUsage :: "UsageInfo option"

text \<open>
  The libraries the executors call are parameters: the version-control helper with the
  result of \<open>DetectChangedFiles\<close> after the run, \<open>GenerateDiff\<close> and \<open>CommitAndPush\<close>
  (\<open>None\<close> where the Go call returns an error, for the commit \<open>Some\<close> the error text);
  the JSON decoder for the two tool inputs (\<open>None\<close> when \<open>json.Unmarshal\<close> fails); and
  the regular-expression search of the decision parser on its buffer.
\<close>

record Git =
  DetectChangedFiles :: "string list option"
  GenerateDiff :: "string \<Rightarrow> string option"
  CommitAndPush :: "string \<Rightarrow> string option"

datatype Question = Question string string "(string \<times> string) list"
  \<comment> \<open>question, header, options as label and description\<close>

record Decoder =
  unmarshalAsk :: "string \<Rightarrow> Question list option"
  unmarshalPlan :: "string \<Rightarrow> string option"
  extractDecision :: "string \<Rightarrow> (string \<times> string \<times> DecisionOption list) option"

record DecisionParser =
  buffer :: string
  lastContent :: string

definition AddContent :: "string \<Rightarrow> DecisionParser \<Rightarrow> DecisionParser" where
  "AddContent content p = \<lparr>buffer = buffer p @ content @ [CHR 0x0A], lastContent = content\<rparr>"

definition Reset :: "DecisionParser \<Rightarrow> DecisionParser" where
  "Reset p = \<lparr>buffer = '''', lastContent = ''''\<rparr>"

text \<open>\<open>fmt.Sprintf("%d", n)\<close> for a number that is not negative.\<close>

fun Itoa :: "nat \<Rightarrow> string" where
  "Itoa n = (if n < 10 then [char_of (48 + n)] else Itoa (n div 10) @ [char_of (48 + n mod 10)])"

text \<open>The options of a question, numbered from 1 in their order.\<close>

fun numberOptions :: "nat \<Rightarrow> (string \<times> string) list \<Rightarrow> DecisionOption list" where
  "numberOptions i [] = []"
| "numberOptions i (opt # opts) =
     DecisionOption (Itoa (i + 1)) (fst opt) (snd opt) # numberOptions (i + 1) opts"

subsection \<open>Package claude: the interactive executor\<close>

text \<open>
  The fields of the interactive executor that its stream handling reads or writes, and the
  events it has passed to \<open>onEvent\<close>, in order.
\<close>

record InteractiveTaskExecutor =
  filesBeforeExec :: "string list"
  lastThinkingText :: string
  parser :: DecisionParser
  turnCompleted :: bool
  emitted :: "Event list"

definition NewInteractiveTaskExecutor :: InteractiveTaskExecutor where
  "NewInteractiveTaskExecutor =
     \<lparr>filesBeforeExec = [], lastThinkingText = '''',
      parser = \<lparr>buffer = '''', lastContent = ''''\<rparr>, turnCompleted = False, emitted = []\<rparr>"

definition sendEvent :: "Event \<Rightarrow> InteractiveTaskExecutor \<Rightarrow> InteractiveTaskExecutor" where
  "sendEvent ev e = e\<lparr>emitted := emitted e @ [ev]\<rparr>"



definition sendCompleteEvent :: "nat \<Rightarrow> InteractiveTaskExecutor \<Rightarrow> InteractiveTaskExecutor" where
  "sendCompleteEvent n e =
     (if turnCompleted e then e
      else sendEvent (Event EventTypeComplete (FilesChangedMessage n)) (e\<lparr>turnCompleted := True\<rparr>))"

text \<open>
  The files of the conversation: those changed now that were not changed before. The
  snapshot is looked up as a set, as the source's \<open>filesBeforeMap\<close> is.
\<close>

definition conversationFiles :: "string list \<Rightarrow> string list \<Rightarrow> string list" where
  "conversationFiles before after = filter (\<lambda>f. f \<notin> set before) after"

text \<open>The loop that fills the map of diffs, skipping failed and empty ones.\<close>

fun collectDiffs :: "Git \<Rightarrow> string list \<Rightarrow> (string \<times> string) list \<Rightarrow> (string \<times> string) list" where
  "collectDiffs git [] diffs = diffs"
| "collectDiffs git (filePath # rest) diffs =
     (case GenerateDiff git filePath of
        None \<Rightarrow> collectDiffs git rest diffs
      | Some diff \<Rightarrow>
          if diff = '''' then collectDiffs git rest diffs
          else collectDiffs git rest (AList.update filePath diff diffs))"

definition handleCompletion ::
  "Git \<Rightarrow> InteractiveTaskExecutor \<Rightarrow> string option \<times> InteractiveTaskExecutor" where
  "handleCompletion git e =
     (case DetectChangedFiles git of
        None \<Rightarrow>
          (Some ''failed to detect changes'',
           sendEvent (Event EventTypeError (ErrorMessage ''Failed to detect changes'')) e)
      | Some filesAfterExec \<Rightarrow>
          let files = conversationFiles (filesBeforeExec e) filesAfterExec
          in if length files = 0
             then (None, sendEvent (Event EventTypeComplete (FilesChanged 0)) e)
             else
               let diffs = collectDiffs git files []
               in if length diffs = 0
                  then (None, sendEvent (Event EventTypeComplete (FilesChanged 0)) e)
                  else (None,
                        sendCompleteEvent (length diffs)
                          (sendEvent (Event EventTypeDiff (DiffData (length diffs) diffs None)) e)))"

text \<open>One content block of an assistant message.\<close>

definition handleText :: "Decoder \<Rightarrow> ContentBlock \<Rightarrow> InteractiveTaskExecutor \<Rightarrow> InteractiveTaskExecutor" where
  "handleText dec content e =
     (let e1 = e\<lparr>lastThinkingText := Text content, parser := AddContent (Text content) (parser e)\<rparr>;
          e2 = sendEvent (Event EventTypeThinking (ThinkingText (Text content))) e1
      in case extractDecision dec (buffer (parser e2)) of
           None \<Rightarrow> e2
         | Some d \<Rightarrow>
             (sendEvent (Event EventTypeDecision
                 (DecisionData (fst d) (fst (snd d)) (snd (snd d)) None)) e2)
               \<lparr>parser := Reset (parser e2)\<rparr>)"

definition askDecision :: "Question \<Rightarrow> Payload" where
  "askDecision q =
     (case q of Question question header opts \<Rightarrow>
        DecisionData question header (numberOptions 0 opts) (Some ''question''))"

definition planDecision :: "string \<Rightarrow> Payload" where
  "planDecision plan =
     DecisionData ''Ready to execute this plan?'' plan
       [DecisionOption ''approve'' ''Approve & Execute'' ''Start executing the plan'',
        DecisionOption ''revise'' ''Ask for Changes'' ''Tell Claude what to change'']
       None"

text \<open>
  A \<open>tool_use\<close> block: the tool-use event is sent first, for every tool; then an
  \<open>AskUserQuestion\<close> whose input decodes with a question, or an \<open>ExitPlanMode\<close> whose
  input decodes with a plan, is sent again as a decision.
\<close>

definition handleToolUse :: "Decoder \<Rightarrow> ContentBlock \<Rightarrow> InteractiveTaskExecutor \<Rightarrow> InteractiveTaskExecutor" where
  "handleToolUse dec content e =
     (let e1 = sendEvent (Event EventTypeToolUse (ToolInfo (ToolName content) (Input content))) e
      in case (if ToolName content = ''AskUserQuestion''
               then unmarshalAsk dec (Input content) else None) of
           Some (q # qs) \<Rightarrow> sendEvent (Event EventTypeDecision (askDecision q)) e1
         | _ \<Rightarrow>
             (case (if ToolName content = ''ExitPlanMode''
                    then unmarshalPlan dec (Input content) else None) of
                Some p \<Rightarrow>
                  if p \<noteq> [] then sendEvent (Event EventTypeDecision (planDecision p)) e1
                  else e1
              | None \<Rightarrow> e1))"

definition handleBlock :: "Decoder \<Rightarrow> ContentBlock \<Rightarrow> InteractiveTaskExecutor \<Rightarrow> InteractiveTaskExecutor" where
  "handleBlock dec content e =
     (if BlockType content = ''text'' then handleText dec content e
      else if BlockType content = ''tool_use'' then handleToolUse dec content e
      else e)"

definition usageEvent :: "UsageInfo \<Rightarrow> string \<Rightarrow> bool \<Rightarrow> Event" where
  "usageEvent u model final = Event EventTypeUsage (UsageData u model final)"

definition handleStreamMessage ::
  "Git \<Rightarrow> Decoder \<Rightarrow> StreamMessage \<Rightarrow> InteractiveTaskExecutor
     \<Rightarrow> string option \<times> InteractiveTaskExecutor" where
  "handleStreamMessage git dec msg e =
     (if MessageType msg = ''user'' then (None, e)
      else if MessageType msg = ''system'' then (None, e)
      else if MessageType msg = ''assistant'' then
        (let e1 = fold (handleBlock dec) (Content msg) e;
             e2 = (if StopReason msg = ''end_turn'' then e1\<lparr>lastThinkingText := ''''\<rparr> else e1)
         in case Usage msg of
              None \<Rightarrow> (None, e2)
            | Some u \<Rightarrow> (None, sendEvent (usageEvent u (MessageModel msg) False) e2))
      else if MessageType msg = ''result'' then
        (let e1 = (case TopLevelUsage msg of
                     None \<Rightarrow> e
                   | Some u \<Rightarrow> sendEvent (usageEvent u '''' True) e)
         in handleCompletion git e1)
      else if MessageType msg = ''error'' then (Some (''claude error: '' @ Result msg), e)
      else (None, e))"


subsection \<open>Package claude: the one-shot executor\<close>

record TaskExecutor =
  os_filesBeforeExec :: "string list"
  requiresApproval :: bool
  os_emitted :: "Event list"

definition os_sendEvent :: "Event \<Rightarrow> TaskExecutor \<Rightarrow> TaskExecutor" where
  "os_sendEvent ev e = e\<lparr>os_emitted := os_emitted e @ [ev]\<rparr>"

text \<open>The one-shot loop over the new files keeps every diff that was generated.\<close>

fun os_collectDiffs :: "Git \<Rightarrow> string list \<Rightarrow> (string \<times> string) list \<Rightarrow> (string \<times> string) list" where
  "os_collectDiffs git [] diffs = diffs"
| "os_collectDiffs git (file # rest) diffs =
     (case GenerateDiff git file of
        None \<Rightarrow> os_collectDiffs git rest diffs
      | Some diff \<Rightarrow> os_collectDiffs git rest (AList.update file diff diffs))"

definition os_handleCompletion :: "Git \<Rightarrow> TaskExecutor \<Rightarrow> string option \<times> TaskExecutor" where
  "os_handleCompletion git e =
     (case DetectChangedFiles git of
        None \<Rightarrow> (Some ''failed to detect changes'', e)
      | Some filesAfterExec \<Rightarrow>
          let newFiles = conversationFiles (os_filesBeforeExec e) filesAfterExec
          in if length newFiles = 0
             then (None, os_sendEvent (Event EventTypeComplete (FilesChanged 0)) e)
             else
               let diffs = os_collectDiffs git newFiles [];
                   e1 = os_sendEvent
                          (Event EventTypeDiff
                             (DiffData (length diffs) diffs (Some (requiresApproval e)))) e
               in if \<not> requiresApproval e
                  then (None, os_sendEvent (Event EventTypeComplete (AutoApproved (length diffs))) e1)
                  else (None, e1))"

subsection \<open>Package agent: conversations and approvals\<close>

datatype Executor = Interactive InteractiveTaskExecutor | OneShot TaskExecutor

record ConversationState =
  executor :: Executor
  pendingDiffs :: "(string \<times> bool) list"
  totalDiffs :: int
  folderPath :: string
  folderID :: string
  files :: "string list"















subsection \<open>Package agent: the handlers that name a folder id\<close>



























text \<open>
  A small world for the executors and the agent: after the run, \<open>a.txt\<close> is the only
  changed file; its diff is \<open>+x\<close> in \<open>demo_git\<close> and empty in \<open>empty_diff_git\<close>; commits
  succeed. The decoder reads the input \<open>q\<close> as one question with two options and the
  input \<open>p\<close> as a plan; the parser finds no decision in prose.
\<close>

definition demo_git :: Git where
  "demo_git =
     \<lparr>DetectChangedFiles = Some [''a.txt''],
      GenerateDiff = (\<lambda>f. if f = ''a.txt'' then Some ''+x'' else None),
      CommitAndPush = (\<lambda>m. None)\<rparr>"

definition empty_diff_git :: Git where
  "empty_diff_git =
     \<lparr>DetectChangedFiles = Some [''a.txt''],
      GenerateDiff = (\<lambda>f. Some ''''),
      CommitAndPush = (\<lambda>m. None)\<rparr>"

definition demo_decoder :: Decoder where
  "demo_decoder =
     \<lparr>unmarshalAsk = (\<lambda>s. if s = ''q''
                            then Some [Question ''Which database?'' ''Storage''
                                         [(''SQLite'', ''embedded''), (''Postgres'', ''server'')]]
                            else None),
      unmarshalPlan = (\<lambda>s. if s = ''p'' then Some ''1. add tests'' else None),
      extractDecision = (\<lambda>s. None)\<rparr>"

definition tool_message :: "string \<Rightarrow> string \<Rightarrow> StreamMessage" where
  "tool_message name input =
     \<lparr>MessageType = ''assistant'', Subtype = '''',
      Content = [\<lparr>BlockType = ''tool_use'', Text = '''', ToolName = name, Input = input\<rparr>],
      StopReason = ''tool_use'', MessageModel = '''', Usage = None, Result = '''',
      TopLevelUsage = None\<rparr>"






section \<open>Properties\<close>

subsection \<open>The selection invariant of the configuration\<close>

lemma hasID_filter_other:
  "i \<noteq> j \<Longrightarrow> hasID i (filter (\<lambda>f. ID f \<noteq> j) fs) = hasID i fs"
  by (induction fs) (auto simp: hasID_def)

lemma hasID_append: "hasID i (fs @ gs) = (hasID i fs \<or> hasID i gs)"
  by (simp add: hasID_def)

lemma hasID_filter_path:
  "hasID i (filter (\<lambda>f. Path f \<noteq> p) fs) = list_ex (\<lambda>f. ID f = i \<and> Path f \<noteq> p) fs"
  by (induction fs) (auto simp: hasID_def)

lemma SelectFolder_valid: "selection_valid c \<Longrightarrow> selection_valid (snd (SelectFolder i c))"
  by (auto simp: SelectFolder_def selection_valid_def)

lemma RemoveFolder_valid: "selection_valid (RemoveFolder p c)"
  by (auto simp: RemoveFolder_def selection_valid_def Let_def)

lemma RemoveFolderByID_valid:
  "selection_valid c \<Longrightarrow> selection_valid (snd (RemoveFolderByID i c))"
  by (auto simp: RemoveFolderByID_def selection_valid_def Let_def hasID_filter_other)

lemma AddFolder_valid:
  "selection_valid c \<Longrightarrow> selection_valid (snd (AddFolder n nm p c))"
  by (auto simp: AddFolder_def selection_valid_def Let_def hasID_append)

text \<open>
  Claim C10. The configuration keeps the invariant that \<open>SelectedFolderID\<close> is empty or
  the id of a folder in \<open>ApprovedFolders\<close>: every folder operation preserves it;
  \<open>SelectFolder\<close> with an id of no approved folder returns the not-found error and leaves
  the configuration as it was; \<open>RemoveFolderByID\<close> of the selected id clears the
  selection; \<open>RemoveFolder\<close> clears the selection when no folder carrying the selected id
  is left, that is when the selected folder was among the removed ones.
\<close>

theorem config_selection_invariant:
  "(selection_valid c \<longrightarrow> selection_valid (snd (SelectFolder i c)))
   \<and> (\<not> hasID i (ApprovedFolders c) \<longrightarrow> SelectFolder i c = (Some (FolderNotFound i), c))
   \<and> (hasID i (ApprovedFolders c) \<longrightarrow>
        SelectFolder i c = (None, c\<lparr>SelectedFolderID := i\<rparr>))
   \<and> selection_valid (RemoveFolder p c)
   \<and> (\<not> list_ex (\<lambda>f. ID f = SelectedFolderID c \<and> Path f \<noteq> p) (ApprovedFolders c) \<longrightarrow>
        SelectedFolderID (RemoveFolder p c) = '''')
   \<and> (selection_valid c \<longrightarrow> selection_valid (snd (RemoveFolderByID i c)))
   \<and> (hasID i (ApprovedFolders c) \<and> SelectedFolderID c = i \<longrightarrow>
        SelectedFolderID (snd (RemoveFolderByID i c)) = '''')
   \<and> (selection_valid c \<longrightarrow> selection_valid (snd (AddFolder n nm q c)))"
proof -
  have sel: "\<not> hasID i (ApprovedFolders c) \<longrightarrow> SelectFolder i c = (Some (FolderNotFound i), c)"
    by (simp add: SelectFolder_def)
  have sel_ok: "hasID i (ApprovedFolders c) \<longrightarrow> SelectFolder i c = (None, c\<lparr>SelectedFolderID := i\<rparr>)"
    by (simp add: SelectFolder_def)
  have rm: "\<not> list_ex (\<lambda>f. ID f = SelectedFolderID c \<and> Path f \<noteq> p) (ApprovedFolders c) \<longrightarrow>
        SelectedFolderID (RemoveFolder p c) = ''''"
    by (simp add: RemoveFolder_def Let_def hasID_filter_path)
  have rmid: "hasID i (ApprovedFolders c) \<and> SelectedFolderID c = i \<longrightarrow>
        SelectedFolderID (snd (RemoveFolderByID i c)) = ''''"
    by (simp add: RemoveFolderByID_def Let_def)
  show ?thesis
    using sel sel_ok rm rmid SelectFolder_valid RemoveFolder_valid RemoveFolderByID_valid
      AddFolder_valid
    by blast
qed

theorem config_selection_invariant_witness:
  "selection_valid demo_config
   \<and> SelectFolder ''z'' demo_config = (Some (FolderNotFound ''z''), demo_config)
   \<and> SelectFolder ''b'' demo_config = (None, demo_config\<lparr>SelectedFolderID := ''b''\<rparr>)
   \<and> selection_valid (RemoveFolder ''/p'' demo_config)
   \<and> SelectedFolderID (RemoveFolder ''/p'' demo_config) = ''''
   \<and> selection_valid (snd (RemoveFolderByID ''a'' demo_config))
   \<and> SelectedFolderID (snd (RemoveFolderByID ''a'' demo_config)) = ''''
   \<and> selection_valid (snd (AddFolder ''c'' ''web'' ''/r'' demo_config))"
  using config_selection_invariant [where i = "''z''" and p = "''/p''" and n = "''c''"
      and nm = "''web''" and q = "''/r''" and c = demo_config]
    config_selection_invariant [where i = "''a''" and p = "''/p''" and c = demo_config]
    config_selection_invariant [where i = "''b''" and p = "''/p''" and c = demo_config]
  by (simp add: selection_valid_def hasID_def demo_config_def SelectFolder_def RemoveFolder_def
      RemoveFolderByID_def AddFolder_def Let_def NewSubscription_def CanAddFolder_def
      GetMaxFolders_def)

subsection \<open>Sending on the control channel while disconnected\<close>

text \<open>
  Claim C7. When the client has no connection, or its connected flag is false,
  \<open>SendMessage\<close> returns the "not connected" error for every message, whatever the
  marshaller and the socket would do; the client is returned unchanged, so no frame has
  been added to the wire of any socket.
\<close>

theorem send_while_disconnected:
  "ws_conn c = None \<or> \<not> connected c \<Longrightarrow>
     fst (SendMessage marshal writeOk msg c) = Some NotConnected
     \<and> snd (SendMessage marshal writeOk msg c) = c
     \<and> wire (snd (SendMessage marshal writeOk msg c)) = wire c"
  by (auto simp: SendMessage_def split: option.splits)

theorem send_while_disconnected_witness:
  "(ws_conn NewWSClient = None
    \<and> SendMessage (\<lambda>m. Some (Payload m)) True
          \<lparr>UserID = ''u'', DeviceType = ''desktop'', MsgType = ''error'', Payload = ''{}''\<rparr>
          NewWSClient = (Some NotConnected, NewWSClient))
   \<and> (connected (NewWSClient\<lparr>ws_conn := Some 0\<rparr>) = False
    \<and> SendMessage (\<lambda>m. Some (Payload m)) True
          \<lparr>UserID = ''u'', DeviceType = ''desktop'', MsgType = ''error'', Payload = ''{}''\<rparr>
          (NewWSClient\<lparr>ws_conn := Some 0\<rparr>) = (Some NotConnected, NewWSClient\<lparr>ws_conn := Some 0\<rparr>))"
  using send_while_disconnected [of NewWSClient "\<lambda>m. Some (Payload m)" True
      "\<lparr>UserID = ''u'', DeviceType = ''desktop'', MsgType = ''error'', Payload = ''{}''\<rparr>"]
    send_while_disconnected [of "NewWSClient\<lparr>ws_conn := Some 0\<rparr>" "\<lambda>m. Some (Payload m)" True
      "\<lparr>UserID = ''u'', DeviceType = ''desktop'', MsgType = ''error'', Payload = ''{}''\<rparr>"]
  by (simp add: NewWSClient_def prod_eq_iff)

subsection \<open>Single-flight reconnection of the control channel\<close>

lemma flag_owned_step: "flag_owned g \<Longrightarrow> flag_owned (step a g)"
  by (cases a) (auto simp: flag_owned_def step_def split: if_splits)

lemma flag_owned_run: "flag_owned g \<Longrightarrow> flag_owned (run as g)"
  unfolding run_def by (induction as arbitrary: g) (simp_all add: flag_owned_step)

lemma flag_owned_start: "flag_owned start"
  by (simp add: flag_owned_def start_def NewWSClient_def)

lemma run_append: "run (as @ bs) g = run bs (run as g)"
  by (simp add: run_def)

text \<open>While a loop holds the flag, a step other than the loop's exit starts no loop.\<close>

lemma step_while_loop_active:
  assumes "flag_owned g" and "loops g = 1" and "a \<noteq> LoopExit"
  shows "loops (step a g) = 1 \<and> started (step a g) = started g \<and> flag_owned (step a g)"
proof -
  from assms(1,2) have held: "reconnecting (client g)" and none: "atSpawn g = 0"
    by (auto simp: flag_owned_def split: if_splits)
  from assms(3) show ?thesis
    using held none assms(1,2) by (cases a) (auto simp: step_def flag_owned_def)
qed

lemma run_while_loop_active:
  "flag_owned g \<Longrightarrow> loops g = 1 \<Longrightarrow> LoopExit \<notin> set bs \<Longrightarrow>
     loops (run bs g) = 1 \<and> started (run bs g) = started g"
proof (induction bs arbitrary: g)
  case Nil
  then show ?case by (simp add: run_def)
next
  case (Cons a bs)
  then have a: "a \<noteq> LoopExit" and bs: "LoopExit \<notin> set bs" by auto
  from step_while_loop_active [OF Cons.prems(1,2) a]
  have s: "loops (step a g) = 1" "started (step a g) = started g" "flag_owned (step a g)"
    by auto
  from Cons.IH [OF s(3) s(1) bs] s(2) show ?case by (simp add: run_def)
qed

text \<open>
  Claim C5. In every interleaving of disconnect triggers, compare-and-swaps, loop starts,
  loop exits and cancellations from a fresh client, at most one reconnect loop is active;
  and while one is active, any further interleaving \<open>bs\<close> of concurrent triggers (every
  step but the loop's own exit) leaves that one loop active and starts no other loop:
  each trigger loses the compare-and-swap and returns.
\<close>

theorem single_flight_reconnect:
  "loops (run as start) \<le> 1
   \<and> (loops (run as start) = 1 \<and> LoopExit \<notin> set bs \<longrightarrow>
        loops (run bs (run as start)) = 1
        \<and> started (run bs (run as start)) = started (run as start))"
proof -
  have inv: "flag_owned (run as start)"
    by (rule flag_owned_run [OF flag_owned_start])
  then have "loops (run as start) \<le> 1"
    by (auto simp: flag_owned_def split: if_splits)
  with run_while_loop_active [OF inv] show ?thesis by blast
qed

theorem single_flight_reconnect_witness:
  "loops (run [Trigger, Trigger, CAS, Spawn, CAS] start) = 1
   \<and> LoopExit \<notin> set [Trigger, Trigger, Trigger, CAS, CAS, Spawn, CAS, Spawn]
   \<and> loops (run [Trigger, Trigger, Trigger, CAS, CAS, Spawn, CAS, Spawn]
        (run [Trigger, Trigger, CAS, Spawn, CAS] start)) = 1
   \<and> started (run [Trigger, Trigger, Trigger, CAS, CAS, Spawn, CAS, Spawn]
        (run [Trigger, Trigger, CAS, Spawn, CAS] start)) = 1"
  using single_flight_reconnect [of "[Trigger, Trigger, CAS, Spawn, CAS]"
      "[Trigger, Trigger, Trigger, CAS, CAS, Spawn, CAS, Spawn]"]
  by (simp add: run_def step_def start_def NewWSClient_def)

subsection \<open>Reconnection of the tunnel and its close\<close>

text \<open>The delay before attempt \<open>k\<close> is \<open>2 ^ (k - 1)\<close> seconds up to the fifth, 16 s after.\<close>

lemma backoffFor_schedule: "1 \<le> k \<Longrightarrow> backoffFor k = 2 ^ (min k 5 - 1)"
proof -
  assume k: "1 \<le> k"
  consider "k = 1" | "k = 2" | "k = 3" | "k = 4" | "5 \<le> k" using k by linarith
  then show ?thesis
    by cases (simp_all add: backoffFor_def backoffs_def Let_def min_def)
qed

text \<open>
  With the default five attempts and every connect failing, the attempts are numbered 1
  to 5, each announced as reconnecting and made after its delay, and the tunnel ends
  disconnected.
\<close>

lemma five_failed_attempts:
  "handleDisconnect (\<lambda>k. ConnectFails) (SetStateChangeCallback NewClient) =
     (SetStateChangeCallback NewClient\<lparr>state := StateDisconnected\<rparr>,
      [StateChange StateReconnecting 1 5, Backoff 1, Reconnect 1,
       StateChange StateReconnecting 2 5, Backoff 2, Reconnect 2,
       StateChange StateReconnecting 3 5, Backoff 4, Reconnect 3,
       StateChange StateReconnecting 4 5, Backoff 8, Reconnect 4,
       StateChange StateReconnecting 5 5, Backoff 16, Reconnect 5,
       StateChange StateDisconnected 5 5])"
  by (simp add: handleDisconnect_def SetStateChangeCallback_def NewClient_def setState_def
      connectInternal_def backoffFor_def backoffs_def Let_def)

text \<open>Once \<open>reconnectCtx\<close> is cancelled, \<open>handleDisconnect\<close> makes no connect attempt.\<close>

lemma no_attempt_after_cancel:
  "reconnectDone c \<Longrightarrow> Reconnect k \<notin> set (snd (handleDisconnect env c))"
  by (cases "1 \<le> maxReconnects c") (auto simp: handleDisconnect_def setState_def)

text \<open>
  Claim C6, where the code departs from it. The client has a state-change callback and the
  default settings; a read error starts \<open>handleDisconnect\<close>, and \<open>Close()\<close> is called
  during the backoff wait of the first attempt. No connect attempt is made and the final
  state is disconnected, but the cancelled wait calls \<open>setState(StateDisconnected, 1)\<close>,
  which invokes the callback: the final state is reported, with attempt 1 of 5.
\<close>

theorem close_during_backoff_is_reported:
  "Close (handleDisconnect (\<lambda>k. ClosedDuringBackoff) (SetStateChangeCallback NewClient)) =
     (SetStateChangeCallback NewClient\<lparr>state := StateDisconnected, reconnectDone := True\<rparr>,
      [StateChange StateReconnecting 1 5, StateChange StateDisconnected 1 5])"
  by (simp add: Close_def handleDisconnect_def SetStateChangeCallback_def NewClient_def
      setState_def Let_def)

subsection \<open>Project paths and the directory names of the session logs\<close>

lemma ReplaceAll_roundtrip:
  "CHR ''-'' \<notin> set r \<Longrightarrow>
     ReplaceAll (ReplaceAll r (CHR ''/'') (CHR ''-'')) (CHR ''-'') (CHR ''/'') = r"
  by (induction r) (auto simp: ReplaceAll_def)

lemma decode_encode_roundtrip:
  "p = CHR ''/'' # r \<Longrightarrow> CHR ''-'' \<notin> set p \<Longrightarrow> decodeProjectPath (EncodeProjectPath p) = p"
  using ReplaceAll_roundtrip [of r]
  by (simp add: decodeProjectPath_def EncodeProjectPath_def ReplaceAll_def)

text \<open>A decoded path contains no hyphen, whatever the directory name.\<close>

lemma decode_no_hyphen: "CHR ''-'' \<notin> set (decodeProjectPath d)"
  by (auto simp: decodeProjectPath_def ReplaceAll_def Let_def split: list.splits)

lemma step_ProjectPath:
  "ProjectPath (session (countMessage sc)) = ProjectPath (session sc)"
  "ProjectPath (session (captureUser msg sc)) = ProjectPath (session sc)"
  "ProjectPath (session (captureAssistant msg sc)) = ProjectPath (session sc)"
  "ProjectPath (session (captureAny msg sc)) = ProjectPath (session sc)"
  "ProjectPath (session (takeSummary msg sc)) = ProjectPath (session sc)"
  "ProjectPath (session (takeModel msg sc)) = ProjectPath (session sc)"
  by (simp_all add: takeModel_def takeSummary_def captureAny_def captureAssistant_def
      captureUser_def countMessage_def)

lemma scanLine_ProjectPath: "ProjectPath (session (scanLine fs l sc)) = ProjectPath (session sc)"
  by (simp add: scanLine_def step_ProjectPath split: option.splits)

lemma fold_scanLine_ProjectPath:
  "ProjectPath (session (fold (scanLine fs) ls sc)) = ProjectPath (session sc)"
  by (induction ls arbitrary: sc) (simp_all add: scanLine_ProjectPath)

lemma parseSessionFile_ProjectPath:
  "ProjectPath (parseSessionFile fs fp s) = ProjectPath s"
proof (cases "fileLines fs fp")
  case None
  then show ?thesis by (simp add: parseSessionFile_def)
next
  case (Some ls)
  define sc where "sc = fold (scanLine fs) (scannedLines ls)
     \<lparr>firstUserMessage = '''', firstAssistantText = '''', anyMessageContent = '''', session = s\<rparr>"
  have "ProjectPath (session sc) = ProjectPath s"
    by (simp add: sc_def fold_scanLine_ProjectPath)
  then show ?thesis
    using Some by (simp add: parseSessionFile_def Let_def sc_def [symmetric])
qed

lemma newSession_ProjectPath: "ProjectPath (newSession fs sid p fp) = p"
  by (simp add: newSession_def parseSessionFile_ProjectPath)

lemma sessions_track: "sessions (track fs sid fp s w) = (sessions w)(sid \<mapsto> s)"
  by (simp add: track_def Let_def split: option.splits)

text \<open>
  A session that \<open>handleNewFile\<close> adds carries the decoded directory name as its project
  path, and that path passed the filter.
\<close>

lemma handleNewFile_new_session:
  "sessions (handleNewFile fs approved fp w) sid = Some s \<Longrightarrow> sessions w sid \<noteq> Some s \<Longrightarrow>
     ProjectPath s = decodeProjectPath (fst fp) \<and> ShouldWatchProject approved (ProjectPath s)"
  by (auto simp: handleNewFile_def Let_def sessions_track newSession_ProjectPath
      split: if_splits option.splits)

lemma scanFiles_step:
  "scanFiles fs p d (f # ents) w = scanFiles fs p d ents w
   \<or> (sessions w (extractSessionID (d, f)) = None
      \<and> scanFiles fs p d (f # ents) w =
          scanFiles fs p d ents
            (track fs (extractSessionID (d, f)) (d, f)
               (newSession fs (extractSessionID (d, f)) p (d, f)) w))"
  by (simp add: Let_def split: option.splits)

lemma scanFiles_keeps:
  "sessions w sid = Some s \<Longrightarrow> sessions (scanFiles fs p d ents w) sid = Some s"
proof (induction ents arbitrary: w)
  case Nil
  then show ?case by simp
next
  case (Cons f ents)
  from scanFiles_step [of fs p d f ents w] show ?case
  proof
    assume "scanFiles fs p d (f # ents) w = scanFiles fs p d ents w"
    with Cons.IH [OF Cons.prems] show ?thesis by simp
  next
    let ?w = "track fs (extractSessionID (d, f)) (d, f)
                (newSession fs (extractSessionID (d, f)) p (d, f)) w"
    assume a: "sessions w (extractSessionID (d, f)) = None
      \<and> scanFiles fs p d (f # ents) w = scanFiles fs p d ents ?w"
    with Cons.prems have "sid \<noteq> extractSessionID (d, f)" by auto
    then have "sessions ?w sid = Some s"
      using Cons.prems by (simp add: sessions_track)
    from Cons.IH [OF this] a show ?thesis by simp
  qed
qed

text \<open>
  \<open>ScanProjectSessions\<close> applies no filter and decodes nothing: every log of the
  directory that is not yet tracked becomes a session of the path it was given.
\<close>

lemma scanFiles_tracks:
  "fn \<in> set ents \<Longrightarrow> HasSuffix fn ''.jsonl'' \<Longrightarrow>
   \<not> HasPrefix (extractSessionID (d, fn)) ''agent-'' \<Longrightarrow>
   sessions w (extractSessionID (d, fn)) = None \<Longrightarrow>
   \<exists>s. sessions (scanFiles fs p d ents w) (extractSessionID (d, fn)) = Some s \<and> ProjectPath s = p"
proof (induction ents arbitrary: w)
  case Nil
  then show ?case by simp
next
  case (Cons f ents)
  let ?sid = "extractSessionID (d, fn)"
  show ?case
  proof (cases "HasSuffix f ''.jsonl'' \<and> \<not> HasPrefix (extractSessionID (d, f)) ''agent-''
      \<and> sessions w (extractSessionID (d, f)) = None")
    case True
    let ?w = "track fs (extractSessionID (d, f)) (d, f)
                (newSession fs (extractSessionID (d, f)) p (d, f)) w"
    have step: "scanFiles fs p d (f # ents) w = scanFiles fs p d ents ?w"
      using True by (simp add: Let_def)
    show ?thesis
    proof (cases "extractSessionID (d, f) = ?sid")
      case True
      then have "sessions ?w ?sid = Some (newSession fs ?sid p (d, f))"
        by (simp add: sessions_track)
      from scanFiles_keeps [OF this] show ?thesis
        unfolding step by (auto simp: newSession_ProjectPath)
    next
      case False
      then have none: "sessions ?w ?sid = None"
        using Cons.prems(4) by (simp add: sessions_track)
      from False Cons.prems(1) have "fn \<in> set ents" by auto
      from Cons.IH [OF this Cons.prems(2,3) none] show ?thesis
        unfolding step .
    qed
  next
    case False
    then have step: "scanFiles fs p d (f # ents) w = scanFiles fs p d ents w"
      by (auto simp: Let_def split: option.splits)
    from False Cons.prems have "fn \<noteq> f" by auto
    with Cons.prems(1) have "fn \<in> set ents" by auto
    from Cons.IH [OF this Cons.prems(2,3,4)] show ?thesis
      unfolding step .
  qed
qed

lemma ScanProjectSessions_tracks:
  "readDir fs (EncodeProjectPath p) = Some ents \<Longrightarrow> fn \<in> set ents \<Longrightarrow>
   HasSuffix fn ''.jsonl'' \<Longrightarrow>
   \<not> HasPrefix (extractSessionID (EncodeProjectPath p, fn)) ''agent-'' \<Longrightarrow>
   sessions w (extractSessionID (EncodeProjectPath p, fn)) = None \<Longrightarrow>
   \<exists>s. sessions (ScanProjectSessions fs p w) (extractSessionID (EncodeProjectPath p, fn)) = Some s
       \<and> ProjectPath s = p"
  using scanFiles_tracks [of fn ents "EncodeProjectPath p" w fs p]
  by (simp add: ScanProjectSessions_def Let_def)

text \<open>
  Claim C9 as stated fails in its last part: the session logs of a folder whose path has a
  hyphen are tracked when \<open>ScanProjectSessions\<close> is given the folder (as the agent does
  when a folder is added on request). Here the folder is \<open>/home/u/my-app\<close>, its
  directory holds \<open>s1.jsonl\<close>, and the scan tracks session \<open>s1\<close> under the folder's path
  and records the file's offset.
\<close>

theorem hyphen_folder_tracked_by_scan:
  "CHR ''-'' \<in> set ''/home/u/my-app''
   \<and> map_option ProjectPath
        (sessions (ScanProjectSessions demo_fs ''/home/u/my-app'' empty_watcher) ''s1'')
      = Some ''/home/u/my-app''
   \<and> filePositions (ScanProjectSessions demo_fs ''/home/u/my-app'' empty_watcher)
        (''-home-u-my-app'', ''s1.jsonl'') = Some 2"
proof -
  have enc: "EncodeProjectPath ''/home/u/my-app'' = ''-home-u-my-app''"
    by (simp add: EncodeProjectPath_def ReplaceAll_def)
  have sid: "extractSessionID (''-home-u-my-app'', ''s1.jsonl'') = ''s1''"
    by (simp add: extractSessionID_def TrimSuffix_def HasSuffix_def)
  have scan: "ScanProjectSessions demo_fs ''/home/u/my-app'' empty_watcher =
      track demo_fs ''s1'' (''-home-u-my-app'', ''s1.jsonl'')
        (newSession demo_fs ''s1'' ''/home/u/my-app'' (''-home-u-my-app'', ''s1.jsonl''))
        empty_watcher"
    by (simp add: ScanProjectSessions_def enc sid demo_fs_def empty_watcher_def Let_def
        HasSuffix_def HasPrefix_def)
  show ?thesis
    by (simp add: scan sessions_track newSession_ProjectPath)
      (simp add: track_def demo_fs_def empty_watcher_def)
qed

text \<open>
  Claim C9, amended. For an absolute path without a hyphen, decoding the encoded path
  gives the path back. For a path with a hyphen it does not; no directory name decodes to
  such a path, so the filter never matches the folder on it, and a session that
  \<open>handleNewFile\<close> adds never carries that path. \<open>ScanProjectSessions\<close>, which encodes
  the folder's path and applies no filter, does track the logs of the folder's directory,
  under the folder's own path, hyphen or not.
\<close>

theorem project_path_round_trip:
  "(p = CHR ''/'' # r \<and> CHR ''-'' \<notin> set p \<longrightarrow> decodeProjectPath (EncodeProjectPath p) = p)
   \<and> (CHR ''-'' \<in> set p \<longrightarrow>
        decodeProjectPath (EncodeProjectPath p) \<noteq> p
        \<and> decodeProjectPath d \<noteq> p
        \<and> (sessions (handleNewFile fs approved fp w) sid = Some s \<and> sessions w sid \<noteq> Some s
             \<longrightarrow> ProjectPath s \<noteq> p))
   \<and> (readDir fs (EncodeProjectPath p) = Some ents \<and> fn \<in> set ents
        \<and> HasSuffix fn ''.jsonl''
        \<and> \<not> HasPrefix (extractSessionID (EncodeProjectPath p, fn)) ''agent-''
        \<and> sessions w (extractSessionID (EncodeProjectPath p, fn)) = None \<longrightarrow>
        (\<exists>s'. sessions (ScanProjectSessions fs p w) (extractSessionID (EncodeProjectPath p, fn)) = Some s'
           \<and> ProjectPath s' = p))"
proof -
  have a: "p = CHR ''/'' # r \<and> CHR ''-'' \<notin> set p \<longrightarrow> decodeProjectPath (EncodeProjectPath p) = p"
    using decode_encode_roundtrip by blast
  have b: "decodeProjectPath e \<noteq> p" if "CHR ''-'' \<in> set p" for e
    using that decode_no_hyphen [of e] by auto
  have c: "ProjectPath s \<noteq> p"
    if "CHR ''-'' \<in> set p" "sessions (handleNewFile fs approved fp w) sid = Some s"
      "sessions w sid \<noteq> Some s"
    using handleNewFile_new_session [OF that(2,3)] b [OF that(1)] by simp
  show ?thesis
    using a b c ScanProjectSessions_tracks [of fs p ents fn w] by blast
qed

theorem project_path_round_trip_witness:
  "(CHR ''-'' \<notin> set ''/home/u/app''
    \<and> decodeProjectPath (EncodeProjectPath ''/home/u/app'') = ''/home/u/app'')
   \<and> (CHR ''-'' \<in> set ''/home/u/my-app''
    \<and> decodeProjectPath (EncodeProjectPath ''/home/u/my-app'') = ''/home/u/my/app''
    \<and> decodeProjectPath (EncodeProjectPath ''/home/u/my-app'') \<noteq> ''/home/u/my-app''
    \<and> sessions (handleNewFile demo_fs demo_approved (''-home-u-my-app'', ''s1.jsonl'') empty_watcher)
         ''s1'' = Some (demo_session ''/home/u/my/app'')
    \<and> sessions empty_watcher ''s1'' \<noteq> Some (demo_session ''/home/u/my/app'')
    \<and> ProjectPath (demo_session ''/home/u/my/app'') \<noteq> ''/home/u/my-app'')
   \<and> (readDir demo_fs (EncodeProjectPath ''/home/u/my-app'') = Some [''s1.jsonl'']
    \<and> sessions empty_watcher (extractSessionID (EncodeProjectPath ''/home/u/my-app'', ''s1.jsonl'')) = None
    \<and> (\<exists>s'. sessions (ScanProjectSessions demo_fs ''/home/u/my-app'' empty_watcher)
              (extractSessionID (EncodeProjectPath ''/home/u/my-app'', ''s1.jsonl'')) = Some s'
           \<and> ProjectPath s' = ''/home/u/my-app''))"
proof -
  have enc: "EncodeProjectPath ''/home/u/my-app'' = ''-home-u-my-app''"
    by (simp add: EncodeProjectPath_def ReplaceAll_def)
  have sid: "extractSessionID (''-home-u-my-app'', ''s1.jsonl'') = ''s1''"
    by (simp add: extractSessionID_def TrimSuffix_def HasSuffix_def)
  have dec: "decodeProjectPath ''-home-u-my-app'' = ''/home/u/my/app''"
    by (simp add: decodeProjectPath_def ReplaceAll_def)
  have new: "newSession demo_fs ''s1'' ''/home/u/my/app'' (''-home-u-my-app'', ''s1.jsonl'')
      = demo_session ''/home/u/my/app''"
    by (simp add: newSession_def parseSessionFile_def demo_fs_def demo_session_def
        scannedLines_def scanLine_def takeModel_def takeSummary_def captureAny_def
        captureAssistant_def captureUser_def countMessage_def generateTitleFromMessage_def
        stripPreamble_def HasPrefix_def Let_def)
  have hnf: "sessions (handleNewFile demo_fs demo_approved (''-home-u-my-app'', ''s1.jsonl'')
        empty_watcher) ''s1'' = Some (demo_session ''/home/u/my/app'')"
    by (simp add: handleNewFile_def sid dec new sessions_track Let_def HasPrefix_def
        ShouldWatchProject_def demo_approved_def empty_watcher_def)
  have rd: "readDir demo_fs ''-home-u-my-app'' = Some [''s1.jsonl'']"
    by (simp add: demo_fs_def)
  have pre: "HasSuffix ''s1.jsonl'' ''.jsonl'' \<and> \<not> HasPrefix ''s1'' ''agent-''
      \<and> sessions empty_watcher ''s1'' = None"
    by (simp add: HasSuffix_def HasPrefix_def empty_watcher_def)
  show ?thesis
    using project_path_round_trip [where p = "''/home/u/app''" and r = "''home/u/app''"
        and fs = demo_fs and ents = "[]" and w = empty_watcher]
      project_path_round_trip [where p = "''/home/u/my-app''" and d = "''-home-u-my-app''"
        and fs = demo_fs and approved = demo_approved
        and fp = "(''-home-u-my-app'', ''s1.jsonl'')" and w = empty_watcher and sid = "''s1''"
        and s = "demo_session ''/home/u/my/app''" and ents = "[''s1.jsonl'']"
        and fn = "''s1.jsonl''"]
      hnf rd pre
    by (simp add: enc sid dec)
qed

subsection \<open>The title of a session\<close>


lemma LastIndex_lower: "-1 \<le> LastIndex xs c"
  by (induction xs) (auto simp: Let_def)















lemma strip_words_text: "stripPreamble words_text = words_text"
  by (simp add: stripPreamble_def words_text_def HasPrefix_def Let_def)

lemma title_words_text:
  "generateTitleFromMessage words_text =
     ''The quick brown fox jumps over the lazy dog and keeps...''"
  by (simp add: generateTitleFromMessage_def strip_words_text Let_def) (simp add: words_text_def)























subsection \<open>The diff set of a turn\<close>

lemma keys_collectDiffs:
  "fst ` set (collectDiffs git fs acc) =
     fst ` set acc \<union> {f \<in> set fs. \<exists>d. GenerateDiff git f = Some d \<and> d \<noteq> ''''}"
proof (induction fs arbitrary: acc)
  case Nil
  show ?case by simp
next
  case (Cons f fs)
  show ?case
  proof (cases "GenerateDiff git f")
    case None
    with Cons.IH [of acc] show ?thesis by auto
  next
    case (Some d)
    show ?thesis
    proof (cases "d = ''''")
      case True
      with Some Cons.IH [of acc] show ?thesis by auto
    next
      case False
      with Some Cons.IH [of "AList.update f d acc"] show ?thesis
        by (auto simp: AList.dom_update)
    qed
  qed
qed

lemma values_collectDiffs:
  "(f, d) \<in> set (collectDiffs git fs acc) \<Longrightarrow> (f, d) \<in> set acc \<or> GenerateDiff git f = Some d"
proof (induction fs arbitrary: acc)
  case Nil
  then show ?case by simp
next
  case (Cons g fs)
  show ?case
  proof (cases "GenerateDiff git g")
    case None
    with Cons show ?thesis by simp
  next
    case (Some e)
    show ?thesis
    proof (cases "e = ''''")
      case True
      with Some Cons show ?thesis by simp
    next
      case False
      with Some Cons.prems have "(f, d) \<in> set (collectDiffs git fs (AList.update g e acc))"
        by simp
      from Cons.IH [OF this] have "(f, d) \<in> set (AList.update g e acc) \<or> GenerateDiff git f = Some d" .
      moreover have "(f, d) \<in> set acc \<or> (f = g \<and> d = e)"
        if "(f, d) \<in> set (AList.update g e acc)"
        using that by (induction acc) (auto split: if_splits)
      ultimately show ?thesis using Some by auto
    qed
  qed
qed

lemma distinct_collectDiffs:
  "distinct (map fst acc) \<Longrightarrow> distinct (map fst (collectDiffs git fs acc))"
  by (induction fs arbitrary: acc) (auto simp: AList.distinct_update split: option.splits)

lemma set_conversationFiles: "set (conversationFiles before after) = set after - set before"
  by (auto simp: conversationFiles_def)

text \<open>
  The interactive executor: when a diff event is sent, its files are exactly the files
  changed after the run and not before whose diff was generated and is not empty, each
  once and with its generated diff.
\<close>

lemma interactive_diff_scoping:
  assumes "DetectChangedFiles git = Some after"
    and "Event EventTypeDiff (DiffData n diffs ra) \<in> set (emitted (snd (handleCompletion git e)))"
    and "Event EventTypeDiff (DiffData n diffs ra) \<notin> set (emitted e)"
  shows "fst ` set diffs =
           {f \<in> set after - set (filesBeforeExec e). \<exists>d. GenerateDiff git f = Some d \<and> d \<noteq> ''''}
         \<and> distinct (map fst diffs) \<and> n = length diffs
         \<and> (\<forall>(f, d) \<in> set diffs. GenerateDiff git f = Some d)"
proof -
  let ?fs = "conversationFiles (filesBeforeExec e) after"
  let ?D = "collectDiffs git ?fs []"
  have "diffs = ?D \<and> n = length ?D"
    using assms
    by (auto simp: handleCompletion_def Let_def sendEvent_def sendCompleteEvent_def
        split: if_splits)
  moreover have "fst ` set ?D =
      {f \<in> set after - set (filesBeforeExec e). \<exists>d. GenerateDiff git f = Some d \<and> d \<noteq> ''''}"
    using keys_collectDiffs [of git ?fs "[]"] by (simp add: set_conversationFiles)
  moreover have "distinct (map fst ?D)"
    by (rule distinct_collectDiffs) simp
  moreover have "\<forall>(f, d) \<in> set ?D. GenerateDiff git f = Some d"
    using values_collectDiffs [of _ _ git ?fs "[]"] by auto
  ultimately show ?thesis by simp
qed

text \<open>
  Claim C3, where the code departs from it. The one-shot executor has no snapshot, the
  file \<open>a.txt\<close> has changed and its generated diff is empty. The diff event holds
  \<open>a.txt\<close> with the empty diff and counts one changed file; the interactive executor
  skips the file on the same input and sends no diff event.
\<close>

theorem oneshot_keeps_empty_diff:
  "os_emitted (snd (os_handleCompletion empty_diff_git
      \<lparr>os_filesBeforeExec = [], requiresApproval = False, os_emitted = []\<rparr>)) =
     [Event EventTypeDiff (DiffData 1 [(''a.txt'', '''')] (Some False)),
      Event EventTypeComplete (AutoApproved 1)]
   \<and> emitted (snd (handleCompletion empty_diff_git NewInteractiveTaskExecutor)) =
     [Event EventTypeComplete (FilesChanged 0)]"
  by (simp add: os_handleCompletion_def handleCompletion_def empty_diff_git_def
      conversationFiles_def os_sendEvent_def sendEvent_def
      NewInteractiveTaskExecutor_def Let_def)

subsection \<open>Questions and plans in the coder's stream\<close>

text \<open>
  Every \<open>tool_use\<close> block is first sent on as a tool-use event, whatever its tool.
\<close>

lemma tool_use_always_forwarded:
  "BlockType b = ''tool_use'' \<Longrightarrow>
     \<exists>rest. emitted (handleBlock dec b e) =
       emitted e @ Event EventTypeToolUse (ToolInfo (ToolName b) (Input b)) # rest"
  by (auto simp: handleBlock_def handleToolUse_def sendEvent_def Let_def
      split: option.splits list.splits)

text \<open>
  An \<open>AskUserQuestion\<close> block whose input decodes with a question, and an
  \<open>ExitPlanMode\<close> block whose input decodes with a plan, are followed by their decision.
\<close>

lemma ask_block_gives_decision:
  "BlockType b = ''tool_use'' \<Longrightarrow> ToolName b = ''AskUserQuestion'' \<Longrightarrow>
   unmarshalAsk dec (Input b) = Some (q # qs) \<Longrightarrow>
     emitted (handleBlock dec b e) =
       emitted e @ [Event EventTypeToolUse (ToolInfo (ToolName b) (Input b)),
                    Event EventTypeDecision (askDecision q)]"
  by (simp add: handleBlock_def handleToolUse_def sendEvent_def Let_def)

lemma plan_block_gives_decision:
  "BlockType b = ''tool_use'' \<Longrightarrow> ToolName b = ''ExitPlanMode'' \<Longrightarrow>
   unmarshalPlan dec (Input b) = Some p \<Longrightarrow> p \<noteq> '''' \<Longrightarrow>
     emitted (handleBlock dec b e) =
       emitted e @ [Event EventTypeToolUse (ToolInfo (ToolName b) (Input b)),
                    Event EventTypeDecision (planDecision p)]"
  by (simp add: handleBlock_def handleToolUse_def sendEvent_def Let_def)

text \<open>
  Claim C4, where the code departs from it. The coder sends an assistant message with one
  \<open>AskUserQuestion\<close> block, and one with an \<open>ExitPlanMode\<close> block. For each the
  orchestrator emits the decision the claim describes, but before it the block itself as
  a tool-use event.
\<close>

theorem question_and_plan_forwarded_as_tool_use:
  "emitted (snd (handleStreamMessage demo_git demo_decoder
      (tool_message ''AskUserQuestion'' ''q'') NewInteractiveTaskExecutor)) =
     [Event EventTypeToolUse (ToolInfo ''AskUserQuestion'' ''q''),
      Event EventTypeDecision
        (DecisionData ''Which database?'' ''Storage''
           [DecisionOption ''1'' ''SQLite'' ''embedded'',
            DecisionOption ''2'' ''Postgres'' ''server'']
           (Some ''question''))]
   \<and> emitted (snd (handleStreamMessage demo_git demo_decoder
      (tool_message ''ExitPlanMode'' ''p'') NewInteractiveTaskExecutor)) =
     [Event EventTypeToolUse (ToolInfo ''ExitPlanMode'' ''p''),
      Event EventTypeDecision
        (DecisionData ''Ready to execute this plan?'' ''1. add tests''
           [DecisionOption ''approve'' ''Approve & Execute'' ''Start executing the plan'',
            DecisionOption ''revise'' ''Ask for Changes'' ''Tell Claude what to change'']
           None)]"
  by (simp add: handleStreamMessage_def tool_message_def handleBlock_def handleToolUse_def
      demo_decoder_def sendEvent_def NewInteractiveTaskExecutor_def askDecision_def
      planDecision_def Let_def char_of_def bit_0)

subsection \<open>Completion and the approval of diffs\<close>
















subsection \<open>Folder ids in the handlers\<close>






































end
